theory Spec2Isabelle
  imports Complex_Main "HOL-Library.Log_Nat"
begin

section \<open>The dashboard component of \<^verbatim>\<open>src/pages/DashboardHome.tsx\<close>\<close>

text \<open>
  The component keeps eight pieces of React state and changes them from event handlers,
  some of which are \<^verbatim>\<open>async\<close> and await one call of the HTTP client \<^verbatim>\<open>api\<close>.
  The embedding is by explicit state passing:
  \<^item> the component state is the record \<open>state\<close>, one field for each \<^verbatim>\<open>useState\<close>;
  \<^item> a synchronous handler is a function \<open>state \<Rightarrow> state\<close>;
  \<^item> an \<^verbatim>\<open>async\<close> handler is cut at its \<^verbatim>\<open>await\<close>: \<open>f_begin\<close> runs up to the
    await and returns the state and the request it is waiting for (\<open>None\<close> when the
    handler returned before issuing one), \<open>f_resume\<close> takes the outcome of that request
    (resolved with a body, or rejected) and runs the rest, and \<open>f\<close> glues the two;
  \<^item> a call of another \<^verbatim>\<open>async\<close> function that is not awaited runs that function's
    \<open>_begin\<close> part on the spot, so its request is issued there; the rest of it runs
    when its own response arrives, as a separate \<open>_resume\<close> step;
  \<^item> every request handed to \<^verbatim>\<open>api\<close> is recorded in the result, in the order of issue.
\<close>

subsection \<open>Data\<close>

record Category =
  category_id :: int
  category_name :: string
  category_description :: string
  who_edited :: "string option"
  created_at :: string
  updated_at :: string

record DashboardStats =
  total_books :: int
  available_books :: int
  active_borrowers :: int
  total_transactions :: int

record QuickStats =
  books_added_today :: int
  books_borrowed_today :: int
  books_returned_today :: int

text \<open>
  The object held in \<^verbatim>\<open>formData\<close>, which is also the shape of the body of the two
  submit requests: the fields \<^verbatim>\<open>category_name\<close>, \<^verbatim>\<open>category_description\<close> and
  \<^verbatim>\<open>who_edited\<close>, here with the prefix \<open>fd_\<close> to keep them apart from the fields of
  \<open>Category\<close>.
\<close>

record FormData =
  fd_category_name :: string
  fd_category_description :: string
  fd_who_edited :: string

record state =
  categories :: "Category list"
  dashboardStats :: DashboardStats
  quickStats :: QuickStats
  isLoading :: bool
  error :: string
  showForm :: bool
  editingCategory :: "Category option"
  formData :: FormData

definition initial_state :: state where
  "initial_state =
     \<lparr>categories = [],
      dashboardStats = \<lparr>total_books = 0, available_books = 0, active_borrowers = 0,
                        total_transactions = 0\<rparr>,
      quickStats = \<lparr>books_added_today = 0, books_borrowed_today = 0,
                    books_returned_today = 0\<rparr>,
      isLoading = False, error = '''', showForm = False, editingCategory = None,
      formData = \<lparr>fd_category_name = '''', fd_category_description = '''',
                  fd_who_edited = ''''\<rparr>\<rparr>"

subsection \<open>The HTTP client as seen by the component\<close>

text \<open>
  The five calls of \<^verbatim>\<open>api\<close>. The path parameter of the update and archive routes is
  kept as the number the template literal interpolates.
\<close>

datatype request =
    GetDashboardSummary                 \<comment> \<open>\<^verbatim>\<open>api.get('/dashboard/summary')\<close>\<close>
  | GetCategories                       \<comment> \<open>\<^verbatim>\<open>api.get('/categories')\<close>\<close>
  | PostCreateCategory FormData         \<comment> \<open>\<^verbatim>\<open>api.post('/create/categories', body)\<close>\<close>
  | PostUpdateCategory int FormData     \<comment> \<open>\<^verbatim>\<open>api.post(`/update/categories/${id}`, body)\<close>\<close>
  | PostArchiveCategory int             \<comment> \<open>\<^verbatim>\<open>api.post(`/archive/categories/${id}`)\<close>\<close>

text \<open>
  A response body, \<^verbatim>\<open>response.data\<close>: \<open>success\<close> is the truth value of
  \<^verbatim>\<open>data.success\<close>, \<open>message\<close> and \<open>errors\<close> are \<open>None\<close> when the property is
  missing (or null). The validation-errors object is an association list in the
  order in which \<^verbatim>\<open>Object.values\<close> enumerates it.
\<close>

record 'a body =
  success :: bool
  data :: 'a
  message :: "string option"
  errors :: "(string \<times> string list) list option"

text \<open>
  The awaited call either resolves with a response, or throws. What the handlers read of
  the thrown value is \<^verbatim>\<open>error.response?.data\<close>: \<open>Rejected None\<close> is an error without
  a response body (a network failure, or any other exception raised inside \<^verbatim>\<open>try\<close>).
\<close>

datatype 'a outcome = Resolved "'a body" | Rejected "'a body option"

text \<open>
  What one run of a handler segment leaves behind: the state, the requests it issued,
  and whether it ended by throwing out of the handler (an unhandled rejection).
\<close>

record run =
  after :: state
  issued :: "request list"
  threw :: bool

subsection \<open>JavaScript operators the handlers use\<close>

text \<open>\<^verbatim>\<open>x || d\<close> on a string that may be undefined: the empty string is falsy.\<close>

definition js_or :: "string option \<Rightarrow> string \<Rightarrow> string" where
  "js_or x d = (case x of None \<Rightarrow> d | Some v \<Rightarrow> if v = [] then d else v)"

text \<open>\<^verbatim>\<open>xs[0]\<close> on an array: undefined when the array is empty.\<close>

definition index0 :: "'a list \<Rightarrow> 'a option" where
  "index0 xs = (case xs of [] \<Rightarrow> None | x # _ \<Rightarrow> Some x)"

definition Object_values :: "('k \<times> 'v) list \<Rightarrow> 'v list" where
  "Object_values obj = map snd obj"

text \<open>\<^verbatim>\<open>error.response?.data?.errors\<close> and \<^verbatim>\<open>error.response?.data?.message\<close>.\<close>

definition response_errors :: "'a body option \<Rightarrow> (string \<times> string list) list option" where
  "response_errors e = (case e of None \<Rightarrow> None | Some b \<Rightarrow> errors b)"

definition response_message :: "'a body option \<Rightarrow> string option" where
  "response_message e = (case e of None \<Rightarrow> None | Some b \<Rightarrow> message b)"

definition requests_of :: "request option \<Rightarrow> request list" where
  "requests_of q = (case q of None \<Rightarrow> [] | Some r \<Rightarrow> [r])"

subsection \<open>Fetchers\<close>

definition fetchDashboardSummary_begin :: "state \<Rightarrow> state \<times> request option" where
  "fetchDashboardSummary_begin s = (s, Some GetDashboardSummary)"

definition fetchDashboardSummary_resume :: "state \<Rightarrow> DashboardStats outcome \<Rightarrow> run" where
  "fetchDashboardSummary_resume s out =
     (case out of
        Resolved b \<Rightarrow>
          if success b
          then \<lparr>after = s\<lparr>dashboardStats := data b\<rparr>, issued = [], threw = False\<rparr>
          else \<lparr>after = s, issued = [], threw = False\<rparr>
      | Rejected e \<Rightarrow>
          \<lparr>after = s\<lparr>error := ''Failed to fetch dashboard data''\<rparr>, issued = [],
           threw = False\<rparr>)"

definition fetchCategories_begin :: "state \<Rightarrow> state \<times> request option" where
  "fetchCategories_begin s = (s, Some GetCategories)"

definition fetchCategories_resume :: "state \<Rightarrow> Category list outcome \<Rightarrow> run" where
  "fetchCategories_resume s out =
     (case out of
        Resolved b \<Rightarrow>
          if success b
          then \<lparr>after = s\<lparr>categories := data b\<rparr>, issued = [], threw = False\<rparr>
          else \<lparr>after = s, issued = [], threw = False\<rparr>
      | Rejected e \<Rightarrow>
          \<lparr>after = s\<lparr>error := ''Failed to fetch categories''\<rparr>, issued = [],
           threw = False\<rparr>)"

text \<open>\<^verbatim>\<open>fetchQuickStats\<close> awaits nothing: it stores the placeholder counters at once.\<close>

definition fetchQuickStats :: "state \<Rightarrow> state" where
  "fetchQuickStats s =
     s\<lparr>quickStats := \<lparr>books_added_today = 2, books_borrowed_today = 5,
                       books_returned_today = 3\<rparr>\<rparr>"

subsection \<open>Form handlers\<close>

definition resetForm :: "state \<Rightarrow> state" where
  "resetForm s =
     s\<lparr>formData := \<lparr>fd_category_name = '''', fd_category_description = '''',
                     fd_who_edited = ''''\<rparr>,
       editingCategory := None,
       showForm := False,
       error := ''''\<rparr>"

definition startEdit :: "Category \<Rightarrow> state \<Rightarrow> state" where
  "startEdit category s =
     s\<lparr>editingCategory := Some category,
       formData := \<lparr>fd_category_name = category_name category,
                     fd_category_description = category_description category,
                     fd_who_edited = js_or (who_edited category) ''''\<rparr>,
       showForm := True\<rparr>"

text \<open>The body of both submit requests: \<^verbatim>\<open>{...formData, who_edited: formData.who_edited || 'Admin'}\<close>.\<close>

definition submit_body :: "FormData \<Rightarrow> FormData" where
  "submit_body fd = fd\<lparr>fd_who_edited := js_or (Some (fd_who_edited fd)) ''Admin''\<rparr>"

definition handleCreateCategory_begin :: "state \<Rightarrow> state \<times> request option" where
  "handleCreateCategory_begin s =
     (s\<lparr>isLoading := True, error := ''''\<rparr>,
      Some (PostCreateCategory (submit_body (formData s))))"

definition handleCreateCategory_resume :: "state \<Rightarrow> 'a outcome \<Rightarrow> run" where
  "handleCreateCategory_resume s out =
     (case out of
        Resolved b \<Rightarrow>
          if success b then
            (let s1 = resetForm s;
                 (s2, q1) = fetchCategories_begin s1;
                 (s3, q2) = fetchDashboardSummary_begin s2
             in \<lparr>after = s3\<lparr>isLoading := False\<rparr>,
                 issued = requests_of q1 @ requests_of q2, threw = False\<rparr>)
          else
            \<lparr>after = s\<lparr>error := js_or (message b) ''Failed to create category'',
                       isLoading := False\<rparr>,
             issued = [], threw = False\<rparr>
      | Rejected e \<Rightarrow>
          (case response_errors e of
             Some errs \<Rightarrow>
               (case index0 (Object_values errs) of
                  None \<Rightarrow> \<lparr>after = s\<lparr>isLoading := False\<rparr>, issued = [], threw = True\<rparr>
                | Some firstError \<Rightarrow>
                    \<lparr>after = s\<lparr>error := js_or (index0 firstError) ''Validation failed'',
                               isLoading := False\<rparr>,
                     issued = [], threw = False\<rparr>)
           | None \<Rightarrow>
               \<lparr>after = s\<lparr>error := js_or (response_message e) ''Failed to create category'',
                          isLoading := False\<rparr>,
                issued = [], threw = False\<rparr>))"

definition handleUpdateCategory_begin :: "state \<Rightarrow> state \<times> request option" where
  "handleUpdateCategory_begin s =
     (case editingCategory s of
        None \<Rightarrow> (s, None)
      | Some c \<Rightarrow>
          (s\<lparr>isLoading := True, error := ''''\<rparr>,
           Some (PostUpdateCategory (category_id c) (submit_body (formData s)))))"

definition handleUpdateCategory_resume :: "state \<Rightarrow> 'a outcome \<Rightarrow> run" where
  "handleUpdateCategory_resume s out =
     (case out of
        Resolved b \<Rightarrow>
          if success b then
            (let s1 = resetForm s;
                 (s2, q1) = fetchCategories_begin s1
             in \<lparr>after = s2\<lparr>isLoading := False\<rparr>, issued = requests_of q1, threw = False\<rparr>)
          else
            \<lparr>after = s\<lparr>error := js_or (message b) ''Failed to update category'',
                       isLoading := False\<rparr>,
             issued = [], threw = False\<rparr>
      | Rejected e \<Rightarrow>
          (case response_errors e of
             Some errs \<Rightarrow>
               (case index0 (Object_values errs) of
                  None \<Rightarrow> \<lparr>after = s\<lparr>isLoading := False\<rparr>, issued = [], threw = True\<rparr>
                | Some firstError \<Rightarrow>
                    \<lparr>after = s\<lparr>error := js_or (index0 firstError) ''Validation failed'',
                               isLoading := False\<rparr>,
                     issued = [], threw = False\<rparr>)
           | None \<Rightarrow>
               \<lparr>after = s\<lparr>error := js_or (response_message e) ''Failed to update category'',
                          isLoading := False\<rparr>,
                issued = [], threw = False\<rparr>))"

text \<open>
  \<^verbatim>\<open>handleDeleteCategory(id)\<close>; \<open>confirmed\<close> is what the \<^verbatim>\<open>confirm\<close> dialog returned.
\<close>

definition handleDeleteCategory_begin :: "int \<Rightarrow> bool \<Rightarrow> state \<Rightarrow> state \<times> request option" where
  "handleDeleteCategory_begin id' confirmed s =
     (if \<not> confirmed then (s, None) else (s, Some (PostArchiveCategory id')))"

definition handleDeleteCategory_resume :: "state \<Rightarrow> 'a outcome \<Rightarrow> run" where
  "handleDeleteCategory_resume s out =
     (case out of
        Resolved b \<Rightarrow>
          if success b then
            (let (s1, q1) = fetchCategories_begin s;
                 (s2, q2) = fetchDashboardSummary_begin s1
             in \<lparr>after = s2, issued = requests_of q1 @ requests_of q2, threw = False\<rparr>)
          else \<lparr>after = s, issued = [], threw = False\<rparr>
      | Rejected e \<Rightarrow>
          \<lparr>after = s\<lparr>error := ''Failed to delete category''\<rparr>, issued = [], threw = False\<rparr>)"

text \<open>
  A handler run from its call to its end, with nothing else happening in between: the
  awaited request comes first in \<open>issued\<close>.
\<close>

definition glue :: "state \<times> request option \<Rightarrow> (state \<Rightarrow> run) \<Rightarrow> run" where
  "glue started rest =
     (case started of
        (s1, None) \<Rightarrow> \<lparr>after = s1, issued = [], threw = False\<rparr>
      | (s1, Some q) \<Rightarrow> (let r = rest s1 in r\<lparr>issued := q # issued r\<rparr>))"

definition fetchDashboardSummary :: "state \<Rightarrow> DashboardStats outcome \<Rightarrow> run" where
  "fetchDashboardSummary s out =
     glue (fetchDashboardSummary_begin s) (\<lambda>s1. fetchDashboardSummary_resume s1 out)"

definition fetchCategories :: "state \<Rightarrow> Category list outcome \<Rightarrow> run" where
  "fetchCategories s out =
     glue (fetchCategories_begin s) (\<lambda>s1. fetchCategories_resume s1 out)"

definition handleCreateCategory :: "state \<Rightarrow> 'a outcome \<Rightarrow> run" where
  "handleCreateCategory s out =
     glue (handleCreateCategory_begin s) (\<lambda>s1. handleCreateCategory_resume s1 out)"

definition handleUpdateCategory :: "state \<Rightarrow> 'a outcome \<Rightarrow> run" where
  "handleUpdateCategory s out =
     glue (handleUpdateCategory_begin s) (\<lambda>s1. handleUpdateCategory_resume s1 out)"

definition handleDeleteCategory :: "int \<Rightarrow> bool \<Rightarrow> state \<Rightarrow> 'a outcome \<Rightarrow> run" where
  "handleDeleteCategory id' confirmed s out =
     glue (handleDeleteCategory_begin id' confirmed s) (\<lambda>s1. handleDeleteCategory_resume s1 out)"

subsection \<open>The events of the view\<close>

text \<open>
  The handlers the JSX attaches: the Add Category button (\<^verbatim>\<open>() => setShowForm(true)\<close>),
  the edit and delete buttons of a category row, the Cancel button (\<^verbatim>\<open>resetForm\<close>), the
  form's \<^verbatim>\<open>onSubmit\<close> (\<^verbatim>\<open>editingCategory ? handleUpdateCategory : handleCreateCategory\<close>)
  and the mount effect. \<open>on_event\<close> is the synchronous part of the reaction: the state
  when the handler returns or reaches its await, and the requests issued until then.
\<close>

datatype event =
    Mount
  | AddCategoryClick
  | EditClick Category
  | DeleteClick int bool
  | CancelClick
  | FormSubmit

definition addCategoryClick :: "state \<Rightarrow> state" where
  "addCategoryClick s = s\<lparr>showForm := True\<rparr>"

definition on_event :: "event \<Rightarrow> state \<Rightarrow> state \<times> request list" where
  "on_event ev s =
     (case ev of
        Mount \<Rightarrow>
          (let (s1, q1) = fetchDashboardSummary_begin s;
               (s2, q2) = fetchCategories_begin s1
           in (fetchQuickStats s2, requests_of q1 @ requests_of q2))
      | AddCategoryClick \<Rightarrow> (addCategoryClick s, [])
      | EditClick category \<Rightarrow> (startEdit category s, [])
      | DeleteClick id' confirmed \<Rightarrow>
          (let (s1, q) = handleDeleteCategory_begin id' confirmed s in (s1, requests_of q))
      | CancelClick \<Rightarrow> (resetForm s, [])
      | FormSubmit \<Rightarrow>
          (let (s1, q) = (if editingCategory s \<noteq> None then handleUpdateCategory_begin s
                          else handleCreateCategory_begin s)
           in (s1, requests_of q)))"

subsection \<open>Numbers\<close>

text \<open>
  The counters of \<open>DashboardStats\<close> are integers, but every JavaScript number is an
  IEEE 754 double and \<^verbatim>\<open>/\<close> and \<^verbatim>\<open>*\<close> round their exact result to the nearest double,
  ties to the even significand. A finite double is modelled by the rational it denotes,
  and \<open>to_double\<close> rounds a rational to 53 significant bits. The exponent range is not
  bounded: overflow to an infinity and gradual underflow are outside the model, as are
  NaN and the sign of zero. Dividing by zero, which gives an infinity or NaN in
  JavaScript, has no value here: \<open>js_divide\<close> returns \<open>None\<close>. A counter in the
  state is a double already, so the integers the fields range over are those a double
  can hold: all of them up to \<open>2 ^ 53\<close> in absolute value.
\<close>

definition pow2 :: "int \<Rightarrow> rat" where
  "pow2 k = (if 0 \<le> k then 2 ^ nat k else 1 / 2 ^ nat (- k))"

text \<open>For \<open>x > 0\<close>, the exponent \<open>k\<close> with \<open>2 ^ k \<le> x < 2 ^ (k + 1)\<close>.\<close>

definition ilog2 :: "rat \<Rightarrow> int" where
  "ilog2 x =
     (let (p, q) = quotient_of x; k = bitlen p - bitlen q
      in if pow2 k \<le> x then k else k - 1)"

definition round_half_even :: "rat \<Rightarrow> int" where
  "round_half_even y =
     (let f = \<lfloor>y\<rfloor>; d = y - of_int f
      in if d < 1 / 2 then f
         else if 1 / 2 < d then f + 1
         else if even f then f else f + 1)"

definition to_double :: "rat \<Rightarrow> rat" where
  "to_double x =
     (if x = 0 then 0
      else (let e = ilog2 \<bar>x\<bar> - 52
            in of_int (round_half_even (x / pow2 e)) * pow2 e))"

definition js_divide :: "rat \<Rightarrow> rat \<Rightarrow> rat option" where
  "js_divide x y = (if y = 0 then None else Some (to_double (x / y)))"

definition js_times :: "rat \<Rightarrow> rat \<Rightarrow> rat" where
  "js_times x y = to_double (x * y)"

text \<open>\<^verbatim>\<open>Math.round\<close>: the nearest integer, a tie going up.\<close>

definition Math_round :: "rat \<Rightarrow> int" where
  "Math_round x = \<lfloor>x + 1 / 2\<rfloor>"

definition Math_max :: "int \<Rightarrow> int \<Rightarrow> int" where
  "Math_max x y = (if x < y then y else x)"

subsection \<open>Derived metrics and their labels\<close>

text \<open>
  The constant \<^verbatim>\<open>availabilityPercentage\<close> of the component body, and the usage-rate
  expression of the Library Health card. Both are computed from the component state at
  each render; \<open>None\<close> would be a division by zero.
\<close>

definition availabilityPercentage :: "state \<Rightarrow> int option" where
  "availabilityPercentage s =
     (if 0 < total_books (dashboardStats s)
      then map_option (\<lambda>q. Math_round (js_times q 100))
             (js_divide (of_int (available_books (dashboardStats s)))
                        (of_int (total_books (dashboardStats s))))
      else Some 0)"

definition usageRate :: "state \<Rightarrow> int option" where
  "usageRate s =
     map_option (\<lambda>q. Math_round (js_times q 100))
       (js_divide (of_int (total_transactions (dashboardStats s)))
                  (of_int (Math_max (total_books (dashboardStats s)) 1)))"

text \<open>
  The two label expressions, as functions of the percentage:
  \<^verbatim>\<open>p >= 70 ? 'Excellent' : p >= 40 ? 'Good' : 'Needs Attention'\<close> and
  \<^verbatim>\<open>p >= 50 ? 'well-stocked' : 'getting busy'\<close>.
\<close>

definition healthLabel :: "int \<Rightarrow> string" where
  "healthLabel p =
     (if 70 \<le> p then ''Excellent'' else if 40 \<le> p then ''Good'' else ''Needs Attention'')"

definition stockLabel :: "int \<Rightarrow> string" where
  "stockLabel p = (if 50 \<le> p then ''well-stocked'' else ''getting busy'')"

subsection \<open>The metrics as the specification writes them\<close>

text \<open>
  The specification gives both metrics as a rounded quotient,
  \<^verbatim>\<open>round(available_books / total_books * 100)\<close> and
  \<^verbatim>\<open>round(total_transactions / max(total_books, 1) * 100)\<close>. Read as arithmetic, the
  quotient and the product are exact and \<open>round\<close> is the nearest integer, a tie going
  up.
\<close>

definition exact_percentage :: "int \<Rightarrow> int \<Rightarrow> rat" where
  "exact_percentage n d = of_int n / of_int d * 100"

definition spec_availability_percentage :: "DashboardStats \<Rightarrow> int" where
  "spec_availability_percentage ds =
     (if 0 < total_books ds
      then round (exact_percentage (available_books ds) (total_books ds))
      else 0)"

definition spec_usage_rate :: "DashboardStats \<Rightarrow> int" where
  "spec_usage_rate ds =
     round (exact_percentage (total_transactions ds) (max (total_books ds) 1))"

subsection \<open>What a failed submission leaves of the form\<close>


subsection \<open>Values used in the examples\<close>

definition fiction :: Category where
  "fiction =
     \<lparr>category_id = 7, category_name = ''Fiction'', category_description = ''Novels'',
      who_edited = None, created_at = ''2024-01-01'', updated_at = ''2024-01-02''\<rparr>"

definition with_books :: "int \<Rightarrow> int \<Rightarrow> int \<Rightarrow> state" where
  "with_books books available transactions =
     initial_state\<lparr>dashboardStats :=
       \<lparr>total_books = books, available_books = available, active_borrowers = 0,
        total_transactions = transactions\<rparr>\<rparr>"

section \<open>Properties\<close>

subsection \<open>Unfolding the handlers\<close>

lemmas begin_defs =
  fetchDashboardSummary_begin_def fetchCategories_begin_def handleCreateCategory_begin_def
  handleUpdateCategory_begin_def handleDeleteCategory_begin_def requests_of_def

lemmas resume_defs =
  fetchDashboardSummary_resume_def fetchCategories_resume_def
  handleCreateCategory_resume_def handleUpdateCategory_resume_def
  handleDeleteCategory_resume_def


subsection \<open>Create\<close>

text \<open>
  Claim C1. A create submission posts the form fields as they are, except that an empty
  \<^verbatim>\<open>who_edited\<close> is replaced by \<^verbatim>\<open>Admin\<close>. When the response reports success, the
  form is cleared (all three fields empty, no editing target, form hidden), whatever
  the state at that moment, and the category list and the dashboard summary are both
  requested again: the handler as a whole issues the create request, then the
  category-list request, then the dashboard-summary request.
\<close>

theorem create_submission:
  "handleCreateCategory_begin s =
     (s\<lparr>isLoading := True, error := ''''\<rparr>,
      Some (PostCreateCategory
        \<lparr>fd_category_name = fd_category_name (formData s),
         fd_category_description = fd_category_description (formData s),
         fd_who_edited = (if fd_who_edited (formData s) = '''' then ''Admin''
                          else fd_who_edited (formData s))\<rparr>)) \<and>
   (success b \<longrightarrow>
      formData (after (handleCreateCategory_resume s' (Resolved b))) =
        \<lparr>fd_category_name = '''', fd_category_description = '''', fd_who_edited = ''''\<rparr> \<and>
      editingCategory (after (handleCreateCategory_resume s' (Resolved b))) = None \<and>
      showForm (after (handleCreateCategory_resume s' (Resolved b))) = False \<and>
      issued (handleCreateCategory_resume s' (Resolved b)) =
        [GetCategories, GetDashboardSummary] \<and>
      issued (handleCreateCategory s (Resolved b)) =
        [PostCreateCategory (submit_body (formData s)), GetCategories, GetDashboardSummary])"
  by (simp add: handleCreateCategory_def glue_def begin_defs handleCreateCategory_resume_def
      submit_body_def js_or_def resetForm_def)

theorem create_submission_witness:
  "success \<lparr>success = True, data = (), message = None, errors = None\<rparr> \<and>
   snd (handleCreateCategory_begin initial_state) =
     Some (PostCreateCategory
       \<lparr>fd_category_name = '''', fd_category_description = '''', fd_who_edited = ''Admin''\<rparr>) \<and>
   showForm (after (handleCreateCategory_resume (initial_state\<lparr>showForm := True\<rparr>)
     (Resolved \<lparr>success = True, data = (), message = None, errors = None\<rparr>))) = False \<and>
   issued (handleCreateCategory_resume (initial_state\<lparr>showForm := True\<rparr>)
     (Resolved \<lparr>success = True, data = (), message = None, errors = None\<rparr>)) =
     [GetCategories, GetDashboardSummary]"
  using create_submission [of initial_state
      "\<lparr>success = True, data = (), message = None, errors = None\<rparr>"
      "initial_state\<lparr>showForm := True\<rparr>"]
  by (simp add: initial_state_def)

subsection \<open>Dashboard summary\<close>

text \<open>
  Claim C2, as amended. When the dashboard-summary request is rejected (a transport
  error, or any exception raised while the response is read), the stored
  \<open>DashboardStats\<close> stay as they were and the error slot becomes
  \<^verbatim>\<open>Failed to fetch dashboard data\<close>. When the request resolves with a body whose
  \<^verbatim>\<open>success\<close> is false, the stored \<open>DashboardStats\<close> stay as they were too, but the
  error slot is not touched: no error is surfaced.
\<close>

theorem fetchDashboardSummary_failure:
  "fetchDashboardSummary_resume s (Rejected e) =
     \<lparr>after = s\<lparr>error := ''Failed to fetch dashboard data''\<rparr>, issued = [], threw = False\<rparr> \<and>
   dashboardStats (after (fetchDashboardSummary_resume s (Rejected e))) = dashboardStats s \<and>
   (\<not> success b \<longrightarrow>
      fetchDashboardSummary_resume s (Resolved b) =
        \<lparr>after = s, issued = [], threw = False\<rparr>)"
  by (simp add: fetchDashboardSummary_resume_def)

theorem fetchDashboardSummary_failure_witness:
  "\<not> success \<lparr>success = False, data = dashboardStats initial_state,
              message = Some ''Server error'', errors = None\<rparr> \<and>
   after (fetchDashboardSummary_resume initial_state
     (Resolved \<lparr>success = False, data = dashboardStats initial_state,
                message = Some ''Server error'', errors = None\<rparr>)) = initial_state \<and>
   error (after (fetchDashboardSummary_resume initial_state (Rejected None))) =
     ''Failed to fetch dashboard data''"
  using fetchDashboardSummary_failure [of initial_state None
      "\<lparr>success = False, data = dashboardStats initial_state,
        message = Some ''Server error'', errors = None\<rparr>"]
  by simp

text \<open>
  The claim as written fails on a body with \<^verbatim>\<open>success: false\<close>: starting from the
  initial state, whose error slot is empty, the slot is still empty afterwards.
\<close>

theorem fetchDashboardSummary_success_false_counterexample:
  "error (after (fetchDashboardSummary_resume initial_state
     (Resolved \<lparr>success = False, data = dashboardStats initial_state,
                message = None, errors = None\<rparr>))) = '''' \<and>
   error (after (fetchDashboardSummary_resume initial_state
     (Resolved \<lparr>success = False, data = dashboardStats initial_state,
                message = None, errors = None\<rparr>))) \<noteq> ''Failed to fetch dashboard data''"
  by (simp add: fetchDashboardSummary_resume_def initial_state_def)

subsection \<open>Update\<close>

text \<open>
  Claim C3. A successful update submission (an editing target is set, the response
  reports success) issues, after the update request itself, exactly one request, the
  category-list fetch; the dashboard summary is not requested. A successful create and
  a successful archive request both.
\<close>

theorem update_success_refreshes_list_only:
  assumes "editingCategory s = Some c" and "success b"
  shows "issued (handleUpdateCategory s (Resolved b)) =
           [PostUpdateCategory (category_id c) (submit_body (formData s)), GetCategories] \<and>
         GetDashboardSummary \<notin> set (issued (handleUpdateCategory s (Resolved b))) \<and>
         issued (handleUpdateCategory_resume s' (Resolved b)) = [GetCategories] \<and>
         issued (handleCreateCategory_resume s' (Resolved b)) =
           [GetCategories, GetDashboardSummary] \<and>
         issued (handleDeleteCategory_resume s' (Resolved b)) =
           [GetCategories, GetDashboardSummary]"
  using assms
  by (simp add: handleUpdateCategory_def glue_def begin_defs resume_defs)

theorem update_success_refreshes_list_only_witness:
  "editingCategory (startEdit fiction initial_state) = Some fiction \<and>
   success \<lparr>success = True, data = (), message = None, errors = None\<rparr> \<and>
   issued (handleUpdateCategory (startEdit fiction initial_state)
     (Resolved \<lparr>success = True, data = (), message = None, errors = None\<rparr>)) =
     [PostUpdateCategory 7
        \<lparr>fd_category_name = ''Fiction'', fd_category_description = ''Novels'',
         fd_who_edited = ''Admin''\<rparr>,
      GetCategories]"
proof -
  have target: "editingCategory (startEdit fiction initial_state) = Some fiction"
    by (simp add: startEdit_def)
  have ok: "success \<lparr>success = True, data = (), message = None, errors = None\<rparr>"
    by simp
  have body: "submit_body (formData (startEdit fiction initial_state)) =
      \<lparr>fd_category_name = ''Fiction'', fd_category_description = ''Novels'',
       fd_who_edited = ''Admin''\<rparr>"
    by (simp add: startEdit_def submit_body_def js_or_def fiction_def)
  have id7: "category_id fiction = 7"
    by (simp add: fiction_def)
  from update_success_refreshes_list_only [OF target ok] target ok body id7
  show ?thesis by simp
qed

text \<open>
  Claim C10. Submitting the update form while no category is being edited does nothing:
  the handler returns at its guard, before the loading flag is set and before any
  request is issued, and the state it leaves is the state it found.
\<close>

theorem update_without_target_is_noop:
  assumes "editingCategory s = None"
  shows "handleUpdateCategory_begin s = (s, None) \<and>
         handleUpdateCategory s out = \<lparr>after = s, issued = [], threw = False\<rparr>"
  using assms
  by (simp add: handleUpdateCategory_def handleUpdateCategory_begin_def glue_def)

theorem update_without_target_is_noop_witness:
  "editingCategory initial_state = None \<and>
   handleUpdateCategory_begin initial_state = (initial_state, None) \<and>
   handleUpdateCategory initial_state
     (Resolved \<lparr>success = True, data = (), message = None, errors = None\<rparr>) =
     \<lparr>after = initial_state, issued = [], threw = False\<rparr>"
proof -
  have idle: "editingCategory initial_state = None"
    by (simp add: initial_state_def)
  from update_without_target_is_noop [OF idle] idle show ?thesis
    by simp
qed

subsection \<open>Validation errors\<close>




subsection \<open>Archive\<close>

text \<open>
  Claim C5, as amended. An archive request is issued only when the confirmation dialog
  was accepted: a declined dialog leaves the state as it is and issues nothing. When the
  dialog was accepted and the response reports success, the category list and the
  dashboard summary are both requested again and the state is not changed. When the
  request is rejected (a transport error, or any exception raised while the response is
  read), the error slot becomes \<^verbatim>\<open>Failed to delete category\<close> and nothing else in the
  state changes. When the request resolves with a body whose \<^verbatim>\<open>success\<close> is false,
  nothing happens: no error is surfaced, nothing is requested again and the state is
  left as it is.
\<close>

theorem archive_request:
  "handleDeleteCategory_begin i False s = (s, None) \<and>
   handleDeleteCategory i False s out = \<lparr>after = s, issued = [], threw = False\<rparr> \<and>
   handleDeleteCategory_begin i True s = (s, Some (PostArchiveCategory i)) \<and>
   (success b \<longrightarrow>
      handleDeleteCategory_resume s (Resolved b) =
        \<lparr>after = s, issued = [GetCategories, GetDashboardSummary], threw = False\<rparr> \<and>
      handleDeleteCategory i True s (Resolved b) =
        \<lparr>after = s, issued = [PostArchiveCategory i, GetCategories, GetDashboardSummary],
         threw = False\<rparr>) \<and>
   handleDeleteCategory_resume s (Rejected e) =
     \<lparr>after = s\<lparr>error := ''Failed to delete category''\<rparr>, issued = [], threw = False\<rparr> \<and>
   handleDeleteCategory i True s (Rejected e) =
     \<lparr>after = s\<lparr>error := ''Failed to delete category''\<rparr>, issued = [PostArchiveCategory i],
      threw = False\<rparr> \<and>
   (\<not> success b \<longrightarrow>
      handleDeleteCategory_resume s (Resolved b) =
        \<lparr>after = s, issued = [], threw = False\<rparr> \<and>
      handleDeleteCategory i True s (Resolved b) =
        \<lparr>after = s, issued = [PostArchiveCategory i], threw = False\<rparr>)"
  by (simp add: handleDeleteCategory_def handleDeleteCategory_resume_def glue_def begin_defs)

theorem archive_request_witness:
  "success \<lparr>success = True, data = (), message = None, errors = None\<rparr> \<and>
   \<not> success \<lparr>success = False, data = (), message = Some ''In use'', errors = None\<rparr> \<and>
   handleDeleteCategory 7 True initial_state
     (Resolved \<lparr>success = True, data = (), message = None, errors = None\<rparr>) =
     \<lparr>after = initial_state,
      issued = [PostArchiveCategory 7, GetCategories, GetDashboardSummary], threw = False\<rparr> \<and>
   handleDeleteCategory 7 True initial_state
     (Resolved \<lparr>success = False, data = (), message = Some ''In use'', errors = None\<rparr>) =
     \<lparr>after = initial_state, issued = [PostArchiveCategory 7], threw = False\<rparr> \<and>
   error (after (handleDeleteCategory 7 True initial_state (Rejected (None :: unit body option)))) =
     ''Failed to delete category''"
proof -
  let ?yes = "\<lparr>success = True, data = (), message = None, errors = None\<rparr>"
  let ?no = "\<lparr>success = False, data = (), message = Some ''In use'', errors = None\<rparr>"
  have ok: "success ?yes" and refused: "\<not> success ?no"
    by simp_all
  note accepted = archive_request [of 7 initial_state "Rejected None :: unit outcome" ?yes
      "None :: unit body option"]
  note declined = archive_request [of 7 initial_state "Rejected None :: unit outcome" ?no
      "None :: unit body option"]
  from accepted ok have c1:
    "handleDeleteCategory 7 True initial_state (Resolved ?yes) =
       \<lparr>after = initial_state,
        issued = [PostArchiveCategory 7, GetCategories, GetDashboardSummary], threw = False\<rparr>"
    by blast
  from declined refused have c2:
    "handleDeleteCategory 7 True initial_state (Resolved ?no) =
       \<lparr>after = initial_state, issued = [PostArchiveCategory 7], threw = False\<rparr>"
    by blast
  from accepted have c3:
    "error (after (handleDeleteCategory 7 True initial_state
       (Rejected (None :: unit body option)))) = ''Failed to delete category''"
    by simp
  from ok refused c1 c2 c3 show ?thesis
    by blast
qed

text \<open>
  The claim as written fails on an archive that the server refuses with
  \<^verbatim>\<open>success: false\<close>: the call has failed, and the error slot, empty before, is
  still empty.
\<close>

theorem archive_success_false_counterexample:
  "error (after (handleDeleteCategory 7 True initial_state
     (Resolved \<lparr>success = False, data = (), message = Some ''In use'', errors = None\<rparr>))) =
     '''' \<and>
   error (after (handleDeleteCategory 7 True initial_state
     (Resolved \<lparr>success = False, data = (), message = Some ''In use'', errors = None\<rparr>))) \<noteq>
     ''Failed to delete category''"
  by (simp add: handleDeleteCategory_def handleDeleteCategory_resume_def glue_def begin_defs
      initial_state_def)

subsection \<open>The error slot and the form\<close>

text \<open>
  Claim C8, as amended. Of the events of the view, pressing Cancel and submitting the
  form (create, or update with an editing target) clear the error slot at once;
  mounting, pressing Add Category, pressing the edit button of a category and pressing
  its delete button leave the slot as it is. A successful create or update also leaves
  the slot empty when its response arrives; a resolved fetch and a resolved archive do
  not touch it.
\<close>

theorem error_cleared_by:
  "error (fst (on_event ev s)) =
     (case ev of CancelClick \<Rightarrow> '''' | FormSubmit \<Rightarrow> '''' | _ \<Rightarrow> error s) \<and>
   error (addCategoryClick s) = error s \<and>
   error (startEdit c s) = error s \<and>
   error (resetForm s) = '''' \<and>
   error (fst (handleCreateCategory_begin s)) = '''' \<and>
   (editingCategory s \<noteq> None \<longrightarrow> error (fst (handleUpdateCategory_begin s)) = '''') \<and>
   (success b \<longrightarrow>
      error (after (handleCreateCategory_resume s (Resolved b))) = '''' \<and>
      error (after (handleUpdateCategory_resume s (Resolved b))) = '''') \<and>
   error (after (fetchCategories_resume s (Resolved b1))) = error s \<and>
   error (after (fetchDashboardSummary_resume s (Resolved b2))) = error s \<and>
   error (after (handleDeleteCategory_resume s (Resolved b))) = error s"
  by (cases ev)
     (auto simp add: on_event_def begin_defs resume_defs addCategoryClick_def startEdit_def
        resetForm_def fetchQuickStats_def split: option.splits)

theorem error_cleared_by_witness:
  "success \<lparr>success = True, data = (), message = None, errors = None\<rparr> \<and>
   editingCategory (startEdit fiction initial_state) \<noteq> None \<and>
   error (fst (on_event (EditClick fiction) (initial_state\<lparr>error := ''Failed to fetch categories''\<rparr>))) =
     ''Failed to fetch categories'' \<and>
   error (after (handleUpdateCategory_resume (initial_state\<lparr>error := ''Failed to fetch categories''\<rparr>)
     (Resolved \<lparr>success = True, data = (), message = None, errors = None\<rparr>))) = '''' \<and>
   error (fst (handleUpdateCategory_begin (startEdit fiction initial_state))) = ''''"
proof -
  have ok: "success \<lparr>success = True, data = (), message = None, errors = None\<rparr>"
    by simp
  have target: "editingCategory (startEdit fiction initial_state) \<noteq> None"
    by (simp add: startEdit_def)
  note prior = error_cleared_by [of "EditClick fiction"
      "initial_state\<lparr>error := ''Failed to fetch categories''\<rparr>" fiction
      "\<lparr>success = True, data = (), message = None, errors = None\<rparr>"
      "\<lparr>success = True, data = [], message = None, errors = None\<rparr>"
      "\<lparr>success = True, data = dashboardStats initial_state, message = None,
        errors = None\<rparr>"]
  note editing = error_cleared_by [of "EditClick fiction" "startEdit fiction initial_state"
      fiction "\<lparr>success = True, data = (), message = None, errors = None\<rparr>"
      "\<lparr>success = True, data = [], message = None, errors = None\<rparr>"
      "\<lparr>success = True, data = dashboardStats initial_state, message = None,
        errors = None\<rparr>"]
  from prior have kept:
    "error (fst (on_event (EditClick fiction)
       (initial_state\<lparr>error := ''Failed to fetch categories''\<rparr>))) =
     ''Failed to fetch categories''"
    by simp
  from prior ok have cleared:
    "error (after (handleUpdateCategory_resume
       (initial_state\<lparr>error := ''Failed to fetch categories''\<rparr>)
       (Resolved \<lparr>success = True, data = (), message = None, errors = None\<rparr>))) = ''''"
    by blast
  from editing target have started:
    "error (fst (handleUpdateCategory_begin (startEdit fiction initial_state))) = ''''"
    by blast
  from ok target kept cleared started show ?thesis
    by blast
qed

text \<open>
  The claim as written fails for opening the form: with an error in the slot, pressing
  Add Category leaves that error where it is.
\<close>

theorem open_form_keeps_error_counterexample:
  "error (fst (on_event AddCategoryClick
     (initial_state\<lparr>error := ''Failed to fetch categories''\<rparr>))) =
     ''Failed to fetch categories'' \<and>
   error (fst (on_event AddCategoryClick
     (initial_state\<lparr>error := ''Failed to fetch categories''\<rparr>))) \<noteq> ''''"
  by (simp add: on_event_def addCategoryClick_def)

text \<open>
  Claim C9. Pressing the edit button of a category and then Cancel leaves the form
  cleared (all three fields empty), no editing target and the form hidden, and neither
  step issues a request.
\<close>

theorem startEdit_then_cancel:
  "on_event (EditClick c) s = (startEdit c s, []) \<and>
   on_event CancelClick (startEdit c s) = (resetForm (startEdit c s), []) \<and>
   formData (resetForm (startEdit c s)) =
     \<lparr>fd_category_name = '''', fd_category_description = '''', fd_who_edited = ''''\<rparr> \<and>
   editingCategory (resetForm (startEdit c s)) = None \<and>
   showForm (resetForm (startEdit c s)) = False"
  by (simp add: on_event_def resetForm_def startEdit_def)

subsection \<open>Rounding to a double\<close>

text \<open>
  What \<open>to_double\<close> is: \<open>ilog2\<close> finds the binary exponent, the result is within
  half a unit in the last place of its argument, that is within \<open>\<bar>x\<bar> / 2 ^ 53\<close>, and
  every integer below \<open>2 ^ 53\<close> in absolute value is a double already.
\<close>

lemma pow2_powi: "pow2 k = 2 powi k"
  by (simp add: pow2_def power_int_def inverse_eq_divide power_one_over)

lemma pow2_pos: "0 < pow2 k"
  by (simp add: pow2_def)

lemma pow2_add: "pow2 (a + b) = pow2 a * pow2 b"
  by (simp add: pow2_powi power_int_add)

lemma pow2_diff: "pow2 (a - b) = pow2 a / pow2 b"
  by (simp add: pow2_powi power_int_diff)

lemma pow2_mono: "a \<le> b \<Longrightarrow> pow2 a \<le> pow2 b"
  by (simp add: pow2_powi power_int_increasing)

lemma bitlen_pow2_bounds:
  assumes "0 < p"
  shows "pow2 (bitlen p - 1) \<le> of_int p" and "of_int p < pow2 (bitlen p)"
proof -
  from assms have len: "1 \<le> bitlen p"
    by (simp add: bitlen_alt_def)
  from bitlen_bounds [OF assms]
  have lo: "2 ^ nat (bitlen p - 1) \<le> p" and hi: "p < 2 ^ nat (bitlen p)"
    by simp_all
  from lo have "(of_int (2 ^ nat (bitlen p - 1)) :: rat) \<le> of_int p"
    by (simp only: of_int_le_iff)
  with len show "pow2 (bitlen p - 1) \<le> of_int p"
    by (simp add: pow2_def)
  from hi have "(of_int p :: rat) < of_int (2 ^ nat (bitlen p))"
    by (simp only: of_int_less_iff)
  with len show "of_int p < pow2 (bitlen p)"
    by (simp add: pow2_def)
qed

lemma ilog2_bounds:
  assumes "0 < x"
  shows "pow2 (ilog2 x) \<le> x \<and> x < pow2 (ilog2 x + 1)"
proof -
  obtain p q where pq: "quotient_of x = (p, q)"
    by (cases "quotient_of x")
  then have q: "0 < q" and x: "x = of_int p / of_int q"
    by (simp_all add: quotient_of_denom_pos quotient_of_div)
  with assms have p: "0 < p"
    by (simp add: zero_less_divide_iff)
  let ?k = "bitlen p - bitlen q"
  note P = bitlen_pow2_bounds [OF p] and Q = bitlen_pow2_bounds [OF q]
  have "pow2 (bitlen p - 1) / pow2 (bitlen q) \<le> of_int p / of_int q"
    using P(1) Q(2) q p pow2_pos [of "bitlen p - 1"]
    by (intro frac_le) (simp_all add: less_imp_le)
  then have lower: "pow2 (?k - 1) \<le> x"
    by (simp add: x pow2_diff [symmetric] algebra_simps)
  have "of_int p / of_int q < pow2 (bitlen p) / pow2 (bitlen q - 1)"
    using P(2) Q(1) q p pow2_pos [of "bitlen q - 1"]
    by (intro frac_less) simp_all
  then have upper: "x < pow2 (?k + 1)"
    by (simp add: x pow2_diff [symmetric] algebra_simps)
  show ?thesis
  proof (cases "pow2 ?k \<le> x")
    case True
    with upper pq show ?thesis by (simp add: ilog2_def)
  next
    case False
    with lower pq show ?thesis by (simp add: ilog2_def)
  qed
qed

lemma round_half_even_error: "\<bar>of_int (round_half_even y) - y\<bar> \<le> 1 / 2"
proof -
  have "of_int \<lfloor>y\<rfloor> \<le> y" and "y < of_int \<lfloor>y\<rfloor> + 1"
    by linarith+
  then show ?thesis
    by (auto simp add: round_half_even_def Let_def abs_le_iff)
qed

lemma round_half_even_of_int: "round_half_even (of_int n) = n"
  by (simp add: round_half_even_def)


lemma to_double_error: "\<bar>to_double x - x\<bar> \<le> \<bar>x\<bar> / 2 ^ 53"
proof (cases "x = 0")
  case True
  then show ?thesis by (simp add: to_double_def)
next
  case False
  define e where "e = ilog2 \<bar>x\<bar> - 52"
  define y where "y = x / pow2 e"
  from False have "0 < \<bar>x\<bar>"
    by simp
  from ilog2_bounds [OF this] have low: "pow2 (ilog2 \<bar>x\<bar>) \<le> \<bar>x\<bar>"
    by simp
  have scale: "pow2 e = pow2 (ilog2 \<bar>x\<bar>) / 2 ^ 52"
    by (simp add: e_def pow2_diff) (simp add: pow2_def)
  have result: "to_double x = of_int (round_half_even y) * pow2 e"
    using False by (simp add: to_double_def e_def y_def Let_def)
  have "x = y * pow2 e"
    using pow2_pos [of e] by (simp add: y_def)
  with result have "to_double x - x = (of_int (round_half_even y) - y) * pow2 e"
    by (simp add: algebra_simps)
  then have "\<bar>to_double x - x\<bar> = \<bar>of_int (round_half_even y) - y\<bar> * pow2 e"
    using pow2_pos [of e] by (simp add: abs_mult)
  also have "\<dots> \<le> 1 / 2 * pow2 e"
    using round_half_even_error [of y] pow2_pos [of e] by (intro mult_right_mono) simp_all
  also have "\<dots> = pow2 (ilog2 \<bar>x\<bar>) / 2 ^ 53"
    by (simp add: scale)
  also have "\<dots> \<le> \<bar>x\<bar> / 2 ^ 53"
    using low by (simp add: divide_right_mono)
  finally show ?thesis .
qed

lemma to_double_of_int:
  assumes "\<bar>n\<bar> < 2 ^ 53"
  shows "to_double (of_int n) = of_int n"
proof (cases "n = 0")
  case True
  then show ?thesis by (simp add: to_double_def)
next
  case False
  define e where "e = ilog2 \<bar>of_int n\<bar> - 52"
  from False have "(0::rat) < \<bar>of_int n\<bar>"
    by simp
  from ilog2_bounds [OF this] have "pow2 (ilog2 \<bar>of_int n\<bar>) \<le> \<bar>of_int n\<bar>"
    by simp
  also from assms have "(\<bar>of_int n\<bar> :: rat) < of_int (2 ^ 53)"
    by (simp only: of_int_abs [symmetric] of_int_less_iff)
  finally have "pow2 (ilog2 \<bar>of_int n\<bar>) < pow2 53"
    by (simp add: pow2_def)
  then have "ilog2 \<bar>of_int n\<bar> < 53"
    using pow2_mono [of 53 "ilog2 \<bar>of_int n\<bar>"] by (cases "ilog2 \<bar>of_int n\<bar> < 53") simp_all
  then have e: "e \<le> 0"
    by (simp add: e_def)
  then have scale: "pow2 e = 1 / 2 ^ nat (- e)"
    by (cases "e = 0") (simp_all add: pow2_def)
  have "of_int n / pow2 e = (of_int (n * 2 ^ nat (- e)) :: rat)"
    by (simp add: scale)
  then have "round_half_even (of_int n / pow2 e) = n * 2 ^ nat (- e)"
    by (simp only: round_half_even_of_int)
  then have "to_double (of_int n) = of_int (n * 2 ^ nat (- e)) * pow2 e"
    using False by (simp add: to_double_def e_def Let_def)
  then show ?thesis
    by (simp add: scale)
qed

lemma percent_error:
  fixes q :: rat
  shows "\<bar>to_double (to_double q * 100) - q * 100\<bar> \<le> 300 * (\<bar>q\<bar> / 2 ^ 53)"
proof -
  define u where "u = \<bar>q\<bar> / 2 ^ 53"
  have first: "\<bar>to_double q - q\<bar> \<le> u"
    unfolding u_def by (rule to_double_error)
  have small: "u \<le> \<bar>q\<bar>"
    by (simp add: u_def divide_le_eq)
  from first small have "\<bar>to_double q\<bar> \<le> 2 * \<bar>q\<bar>"
    by linarith
  then have size: "\<bar>to_double q * 100\<bar> \<le> 200 * \<bar>q\<bar>"
    by (simp add: abs_mult)
  have "\<bar>to_double (to_double q * 100) - to_double q * 100\<bar> \<le> \<bar>to_double q * 100\<bar> / 2 ^ 53"
    by (rule to_double_error)
  also from size have "\<dots> \<le> 200 * \<bar>q\<bar> / 2 ^ 53"
    by (rule divide_right_mono) simp
  also have "\<dots> = 200 * u"
    by (simp add: u_def)
  finally have second: "\<bar>to_double (to_double q * 100) - to_double q * 100\<bar> \<le> 200 * u" .
  have scaled: "to_double q * 100 - q * 100 = (to_double q - q) * 100"
    by (simp add: algebra_simps)
  have "\<bar>to_double q * 100 - q * 100\<bar> = \<bar>to_double q - q\<bar> * 100"
    unfolding scaled abs_mult by simp
  with first have third: "\<bar>to_double q * 100 - q * 100\<bar> \<le> 100 * u"
    by linarith
  from second third have "\<bar>to_double (to_double q * 100) - q * 100\<bar> \<le> 300 * u"
    by linarith
  then show ?thesis
    by (simp only: u_def)
qed

text \<open>
  The product of the percentage is therefore close to the exact percentage, close enough
  to round to the same integer unless the exact percentage is halfway between two.
\<close>

lemma percent_rounding:
  fixes n d :: int
  assumes d: "0 < d" and n: "\<bar>n\<bar> < 2 ^ 43"
  shows "(frac (of_int n / of_int d * 100 :: rat) \<noteq> 1 / 2 \<longrightarrow>
           Math_round (to_double (to_double (of_int n / of_int d) * 100)) =
           round (of_int n / of_int d * 100 :: rat)) \<and>
         (frac (of_int n / of_int d * 100 :: rat) = 1 / 2 \<longrightarrow>
           Math_round (to_double (to_double (of_int n / of_int d) * 100)) =
             round (of_int n / of_int d * 100 :: rat) \<or>
           Math_round (to_double (to_double (of_int n / of_int d) * 100)) =
             round (of_int n / of_int d * 100 :: rat) - 1)"
proof -
  define q :: rat where "q = of_int n / of_int d"
  define t where "t = q * 100"
  define v where "v = to_double (to_double q * 100)"
  define u :: rat where "u = 1 / of_int (2 * d)"
  define N where "N = 200 * n + d"
  define m where "m = N div (2 * d)"
  define f where "f = N mod (2 * d)"
  from d have upos: "0 < u" and u_half: "u \<le> 1 / 2"
    by (simp_all add: u_def field_simps)
  have "\<bar>q\<bar> = of_int \<bar>n\<bar> / of_int d"
    using d by (simp add: q_def)
  also from n have "\<dots> < of_int (2 ^ 43) / of_int d"
    using d by (intro divide_strict_right_mono) (simp_all only: of_int_less_iff of_int_0_less_iff)
  finally have qsize: "\<bar>q\<bar> < 2 ^ 43 / of_int d"
    by simp
  have "\<bar>v - t\<bar> \<le> 300 * (\<bar>q\<bar> / 2 ^ 53)"
    unfolding v_def t_def by (rule percent_error)
  also have "\<dots> < 300 * ((2 ^ 43 / of_int d) / 2 ^ 53)"
    using qsize by (simp add: divide_strict_right_mono)
  also have "\<dots> = (300 / 512) * u"
    using d by (simp add: u_def)
  also have "\<dots> \<le> u"
    using upos by simp
  finally have close: "\<bar>v - t\<bar> < u" .
  have split: "N = m * (2 * d) + f"
    by (simp only: m_def f_def div_mult_mod_eq)
  from d have frange: "0 \<le> f" "f < 2 * d"
    by (simp_all add: f_def)
  have "t + 1 / 2 = of_int N / of_int (2 * d)"
    using d by (simp add: t_def q_def N_def field_simps)
  also have "\<dots> = of_int m + of_int f * u"
    using d by (simp add: split u_def field_simps)
  finally have place: "t + 1 / 2 = of_int m + of_int f * u" .
  have tie: "frac t = 1 / 2" if "f = 0"
  proof -
    from that place have "t = of_int (m - 1) + 1 / 2"
      by simp
    then have "\<lfloor>t\<rfloor> = m - 1"
      by (simp add: floor_eq_iff)
    with \<open>t = of_int (m - 1) + 1 / 2\<close> show ?thesis
      by (simp add: frac_def)
  qed
  have off: "Math_round v = round t" if "frac t \<noteq> 1 / 2"
  proof -
    from that tie frange have "1 \<le> f" and "f \<le> 2 * d - 1"
      by (cases "f = 0"; simp)+
    then have "(1::rat) \<le> of_int f" and "(of_int f :: rat) \<le> of_int (2 * d) - 1"
      by (simp_all only: of_int_le_iff [symmetric] of_int_1 of_int_diff)
    define w where "w = of_int f * u"
    from upos \<open>1 \<le> of_int f\<close> have "1 * u \<le> w"
      unfolding w_def by (intro mult_right_mono) simp_all
    then have wl: "u \<le> w"
      by simp
    from upos \<open>of_int f \<le> of_int (2 * d) - 1\<close> have "w \<le> (of_int (2 * d) - 1) * u"
      unfolding w_def by (intro mult_right_mono) simp_all
    moreover have "(of_int (2 * d) - 1) * u = 1 - u"
      using d by (simp add: u_def field_simps)
    ultimately have wu: "w \<le> 1 - u"
      by simp
    from place have place': "t + 1 / 2 = of_int m + w"
      by (simp only: w_def)
    from place' close wl wu have "of_int m \<le> v + 1 / 2" and "v + 1 / 2 < of_int m + 1"
      by linarith+
    then have "\<lfloor>v + 1 / 2\<rfloor> = m"
      by (rule floor_unique)
    moreover from place' upos wl wu have "of_int m \<le> t + 1 / 2" and "t + 1 / 2 < of_int m + 1"
      by linarith+
    then have "\<lfloor>t + 1 / 2\<rfloor> = m"
      by (rule floor_unique)
    ultimately have "\<lfloor>v + 1 / 2\<rfloor> = m" and "\<lfloor>t + 1 / 2\<rfloor> = m"
      by simp_all
    then show ?thesis
      by (simp add: Math_round_def round_def)
  qed
  have on: "Math_round v = round t \<or> Math_round v = round t - 1" if "frac t = 1 / 2"
  proof -
    define k where "k = \<lfloor>t\<rfloor>"
    from that have here: "t + 1 / 2 = of_int k + 1"
      by (simp add: frac_def k_def algebra_simps)
    then have "t + 1 / 2 = of_int (k + 1)"
      by simp
    then have r: "round t = k + 1"
      by (simp only: round_def floor_of_int)
    from close u_half have near: "\<bar>v - t\<bar> < 1 / 2"
      by linarith
    from here near have "of_int k \<le> v + 1 / 2" and "v + 1 / 2 < of_int k + 2"
      by linarith+
    then have "k \<le> \<lfloor>v + 1 / 2\<rfloor>" and "\<lfloor>v + 1 / 2\<rfloor> < k + 2"
      by (simp_all add: le_floor_iff floor_less_iff)
    then have "\<lfloor>v + 1 / 2\<rfloor> = k \<or> \<lfloor>v + 1 / 2\<rfloor> = k + 1"
      by linarith
    with r show ?thesis
      by (auto simp add: Math_round_def)
  qed
  from off on show ?thesis
    by (simp add: v_def t_def q_def)
qed

subsection \<open>Derived metrics\<close>

text \<open>
  At the two ends of the scale, nothing available and everything available, the
  percentage is 0 and 100 whatever the number of books.
\<close>

lemma Math_round_of_int: "Math_round (of_int n) = n"
  unfolding Math_round_def by linarith

lemma availability_all_available:
  assumes "0 < total_books (dashboardStats s)"
    and "available_books (dashboardStats s) = total_books (dashboardStats s)"
  shows "availabilityPercentage s = Some 100"
proof -
  have one: "to_double 1 = 1"
    using to_double_of_int [of 1] by simp
  have hundred: "to_double 100 = 100"
    using to_double_of_int [of 100] by simp
  from assms show ?thesis
    using Math_round_of_int [of 100]
    by (simp add: availabilityPercentage_def js_divide_def js_times_def one hundred)
qed

lemma availability_none_available:
  assumes "0 < total_books (dashboardStats s)" and "available_books (dashboardStats s) = 0"
  shows "availabilityPercentage s = Some 0"
  using assms Math_round_of_int [of 0]
  by (simp add: availabilityPercentage_def js_divide_def js_times_def to_double_def)


lemma percentage_45_of_100:
  "map_option (\<lambda>q. Math_round (js_times q 100)) (js_divide (of_int 45) (of_int 100)) = Some 45"
  by code_simp

text \<open>
  Claim C6, as amended. Both metrics depend on the component state through its
  \<open>DashboardStats\<close> only, and both always have a value: no division is by zero. With
  \<^verbatim>\<open>total_books = 0\<close> the availability percentage is 0. With \<^verbatim>\<open>total_books > 0\<close> it is
  \<^verbatim>\<open>Math.round\<close> of the product \<^verbatim>\<open>(available_books / total_books) * 100\<close> as computed
  in doubles, the quotient and the product each rounded to the nearest double; the usage
  rate is the same with \<^verbatim>\<open>total_transactions\<close> over \<^verbatim>\<open>max(total_books, 1)\<close>. For a
  numerator below \<open>2 ^ 43\<close> in absolute value this is the exactly rounded quotient of
  the specification whenever the exact percentage does not lie halfway between two
  integers; when it does, the metric is that rounding or one less.
\<close>

theorem derived_metrics:
  fixes s s' :: state
  defines "ds \<equiv> dashboardStats s"
  shows
  "(dashboardStats s = dashboardStats s' \<longrightarrow>
      availabilityPercentage s = availabilityPercentage s' \<and> usageRate s = usageRate s') \<and>
   (total_books ds = 0 \<longrightarrow> availabilityPercentage s = Some 0) \<and>
   (0 < total_books ds \<longrightarrow>
      availabilityPercentage s =
        Some (Math_round (to_double (to_double
          (of_int (available_books ds) / of_int (total_books ds)) * 100)))) \<and>
   usageRate s =
     Some (Math_round (to_double (to_double
       (of_int (total_transactions ds) / of_int (max (total_books ds) 1)) * 100))) \<and>
   (\<bar>available_books ds\<bar> < 2 ^ 43 \<longrightarrow>
      ((0 < total_books ds \<longrightarrow>
          frac (exact_percentage (available_books ds) (total_books ds)) \<noteq> 1 / 2) \<longrightarrow>
         availabilityPercentage s = Some (spec_availability_percentage ds)) \<and>
      (availabilityPercentage s = Some (spec_availability_percentage ds) \<or>
       availabilityPercentage s = Some (spec_availability_percentage ds - 1))) \<and>
   (\<bar>total_transactions ds\<bar> < 2 ^ 43 \<longrightarrow>
      (frac (exact_percentage (total_transactions ds) (max (total_books ds) 1)) \<noteq> 1 / 2 \<longrightarrow>
         usageRate s = Some (spec_usage_rate ds)) \<and>
      (usageRate s = Some (spec_usage_rate ds) \<or>
       usageRate s = Some (spec_usage_rate ds - 1)))"
proof -
  have divisor: "Math_max (total_books ds) 1 = max (total_books ds) 1"
    by (simp add: Math_max_def max_def)
  have positive: "0 < max (total_books ds) 1"
    by simp
  then have nonzero: "(of_int (max (total_books ds) 1) :: rat) \<noteq> 0"
    by simp
  have usage: "usageRate s =
     Some (Math_round (to_double (to_double
       (of_int (total_transactions ds) / of_int (max (total_books ds) 1)) * 100)))"
    unfolding usageRate_def ds_def [symmetric] divisor js_divide_def js_times_def
    using nonzero by simp
  have same: "dashboardStats s = dashboardStats s' \<longrightarrow>
      availabilityPercentage s = availabilityPercentage s' \<and> usageRate s = usageRate s'"
    by (simp add: availabilityPercentage_def usageRate_def)
  have avail: "availabilityPercentage s =
        Some (Math_round (to_double (to_double
          (of_int (available_books ds) / of_int (total_books ds)) * 100)))"
    if "0 < total_books ds"
    using that by (simp add: availabilityPercentage_def js_divide_def js_times_def ds_def)
  have zero: "availabilityPercentage s = Some 0" if "\<not> 0 < total_books ds"
    using that by (simp add: availabilityPercentage_def ds_def)
  have spec_zero: "spec_availability_percentage ds = 0" if "\<not> 0 < total_books ds"
    using that by (simp add: spec_availability_percentage_def)
  have spec_books: "spec_availability_percentage ds =
      round (of_int (available_books ds) / of_int (total_books ds) * 100 :: rat)"
    if "0 < total_books ds"
    using that by (simp add: spec_availability_percentage_def exact_percentage_def)
  have spec_usage: "spec_usage_rate ds =
      round (of_int (total_transactions ds) / of_int (max (total_books ds) 1) * 100 :: rat)"
    by (simp add: spec_usage_rate_def exact_percentage_def)
  have a_exact: "availabilityPercentage s = Some (spec_availability_percentage ds)"
    if "\<bar>available_books ds\<bar> < 2 ^ 43"
      and "0 < total_books ds \<longrightarrow>
        frac (exact_percentage (available_books ds) (total_books ds)) \<noteq> 1 / 2"
  proof (cases "0 < total_books ds")
    case True
    with that percent_rounding [of "total_books ds" "available_books ds"]
    show ?thesis
      by (simp add: avail spec_books exact_percentage_def)
  next
    case False
    then show ?thesis
      by (simp add: zero spec_zero)
  qed
  have a_near: "availabilityPercentage s = Some (spec_availability_percentage ds) \<or>
      availabilityPercentage s = Some (spec_availability_percentage ds - 1)"
    if "\<bar>available_books ds\<bar> < 2 ^ 43"
  proof (cases "0 < total_books ds")
    case True
    with that percent_rounding [of "total_books ds" "available_books ds"]
    show ?thesis
      unfolding avail [OF True] spec_books [OF True] by blast
  next
    case False
    then show ?thesis
      by (simp add: zero spec_zero)
  qed
  have u_exact: "usageRate s = Some (spec_usage_rate ds)"
    if "\<bar>total_transactions ds\<bar> < 2 ^ 43"
      and "frac (exact_percentage (total_transactions ds) (max (total_books ds) 1)) \<noteq> 1 / 2"
    using that positive percent_rounding [of "max (total_books ds) 1" "total_transactions ds"]
    unfolding usage spec_usage exact_percentage_def by blast
  have u_near: "usageRate s = Some (spec_usage_rate ds) \<or>
      usageRate s = Some (spec_usage_rate ds - 1)"
    if "\<bar>total_transactions ds\<bar> < 2 ^ 43"
    using that positive percent_rounding [of "max (total_books ds) 1" "total_transactions ds"]
    unfolding usage spec_usage by blast
  have none: "total_books ds = 0 \<longrightarrow> availabilityPercentage s = Some 0"
    by (simp add: zero)
  from same none avail usage a_exact a_near u_exact u_near show ?thesis
    by blast
qed

theorem derived_metrics_witness:
  "dashboardStats (with_books 100 45 120) =
     dashboardStats ((with_books 100 45 120)\<lparr>showForm := True\<rparr>) \<and>
   0 < total_books (dashboardStats (with_books 100 45 120)) \<and>
   \<bar>available_books (dashboardStats (with_books 100 45 120))\<bar> < 2 ^ 43 \<and>
   \<bar>total_transactions (dashboardStats (with_books 100 45 120))\<bar> < 2 ^ 43 \<and>
   frac (exact_percentage 45 100) \<noteq> 1 / 2 \<and>
   frac (exact_percentage 120 (max 100 1)) \<noteq> 1 / 2 \<and>
   availabilityPercentage (with_books 100 45 120) = Some 45 \<and>
   availabilityPercentage ((with_books 100 45 120)\<lparr>showForm := True\<rparr>) = Some 45 \<and>
   usageRate (with_books 100 45 120) = Some 120 \<and>
   total_books (dashboardStats (with_books 0 0 3)) = 0 \<and>
   availabilityPercentage (with_books 0 0 3) = Some 0 \<and>
   \<bar>available_books (dashboardStats (with_books 40 23 0))\<bar> < 2 ^ 43 \<and>
   0 < total_books (dashboardStats (with_books 40 23 0)) \<and>
   (availabilityPercentage (with_books 40 23 0) = Some 58 \<or>
    availabilityPercentage (with_books 40 23 0) = Some (58 - 1)) \<and>
   availabilityPercentage (with_books 40 23 0) = Some 57"
proof -
  let ?s = "with_books 100 45 120"
  let ?s' = "(with_books 100 45 120)\<lparr>showForm := True\<rparr>"
  let ?z = "with_books 0 0 3"
  let ?h = "with_books 40 23 0"
  have stats: "total_books (dashboardStats ?s) = 100" "available_books (dashboardStats ?s) = 45"
    "total_transactions (dashboardStats ?s) = 120"
    by (simp_all add: with_books_def)
  have none: "total_books (dashboardStats ?z) = 0"
    by (simp add: with_books_def)
  have half: "available_books (dashboardStats ?h) = 23" "total_books (dashboardStats ?h) = 40"
    by (simp_all add: with_books_def)
  have forty: "0 < total_books (dashboardStats ?h)"
    by (simp add: half)
  have double: "Math_round (to_double (to_double (of_int 23 / of_int 40) * 100)) = 57"
    by code_simp
  have same: "dashboardStats ?s = dashboardStats ?s'"
    by simp
  have books: "0 < total_books (dashboardStats ?s)"
    by (simp add: stats)
  have sizes: "\<bar>available_books (dashboardStats ?s)\<bar> < 2 ^ 43"
    "\<bar>total_transactions (dashboardStats ?s)\<bar> < 2 ^ 43"
    "\<bar>available_books (dashboardStats ?h)\<bar> < 2 ^ 43"
    by (simp_all add: stats half)
  have off: "frac (exact_percentage 45 100) \<noteq> 1 / 2"
    "frac (exact_percentage 120 (max 100 1)) \<noteq> 1 / 2"
    by code_simp+
  have spec: "spec_availability_percentage (dashboardStats ?s) = 45"
    "spec_usage_rate (dashboardStats ?s) = 120"
    "spec_availability_percentage (dashboardStats ?h) = 58"
    by code_simp+
  note m = derived_metrics [of ?s ?s'] and mz = derived_metrics [of ?z ?z]
    and mh = derived_metrics [of ?h ?h]
  from m sizes(1) off(1) have p1: "availabilityPercentage ?s = Some 45"
    unfolding stats spec by blast
  from m same have "availabilityPercentage ?s = availabilityPercentage ?s'"
    by blast
  with p1 have p2: "availabilityPercentage ?s' = Some 45"
    by simp
  from m sizes(2) off(2) have p3: "usageRate ?s = Some 120"
    unfolding stats spec by blast
  from mz none have p4: "availabilityPercentage ?z = Some 0"
    by blast
  from mh sizes(3) have p5:
    "availabilityPercentage ?h = Some 58 \<or> availabilityPercentage ?h = Some (58 - 1)"
    unfolding spec by blast
  from mh forty have "availabilityPercentage ?h =
      Some (Math_round (to_double (to_double (of_int 23 / of_int 40) * 100)))"
    unfolding half by blast
  with double have p6: "availabilityPercentage ?h = Some 57"
    by simp
  from same books sizes off p1 p2 p3 none p4 forty p5 p6 show ?thesis
    by blast
qed

text \<open>
  The claim as written, with the quotient and the rounding read as arithmetic, fails at
  40 books of which 23 are available: the exact percentage is 57.5, which rounds to 58,
  and the component shows 57, because the double nearest to 23/40 times 100 is a double
  just below 57.5.
\<close>

theorem derived_metrics_rounding_counterexample:
  "0 < total_books (dashboardStats (with_books 40 23 0)) \<and>
   availabilityPercentage (with_books 40 23 0) = Some 57 \<and>
   spec_availability_percentage (dashboardStats (with_books 40 23 0)) = 58 \<and>
   availabilityPercentage (with_books 40 23 0) \<noteq>
     Some (round (of_int 23 / of_int 40 * 100 :: rat))"
  by code_simp

text \<open>
  Claim C7. The three-level label of a percentage is \<^verbatim>\<open>Needs Attention\<close> below 40,
  \<^verbatim>\<open>Good\<close> from 40 and below 70, and \<^verbatim>\<open>Excellent\<close> from 70; the two-level label is
  \<^verbatim>\<open>well-stocked\<close> from 50 and \<^verbatim>\<open>getting busy\<close> below 50. With 100 books of which 45
  are available the percentage is 45 and the label \<^verbatim>\<open>Good\<close>; with no books the
  percentage is 0 and the label \<^verbatim>\<open>Needs Attention\<close>.
\<close>

theorem availability_labels:
  "(p < 40 \<longrightarrow> healthLabel p = ''Needs Attention'') \<and>
   (40 \<le> p \<and> p < 70 \<longrightarrow> healthLabel p = ''Good'') \<and>
   (70 \<le> p \<longrightarrow> healthLabel p = ''Excellent'') \<and>
   (50 \<le> p \<longrightarrow> stockLabel p = ''well-stocked'') \<and>
   (p < 50 \<longrightarrow> stockLabel p = ''getting busy'') \<and>
   (total_books (dashboardStats s) = 100 \<and> available_books (dashboardStats s) = 45 \<longrightarrow>
      map_option healthLabel (availabilityPercentage s) = Some ''Good'' \<and>
      availabilityPercentage s = Some 45) \<and>
   (total_books (dashboardStats s) = 0 \<longrightarrow>
      map_option healthLabel (availabilityPercentage s) = Some ''Needs Attention'' \<and>
      availabilityPercentage s = Some 0)"
proof -
  have thresholds:
    "(p < 40 \<longrightarrow> healthLabel p = ''Needs Attention'') \<and>
     (40 \<le> p \<and> p < 70 \<longrightarrow> healthLabel p = ''Good'') \<and>
     (70 \<le> p \<longrightarrow> healthLabel p = ''Excellent'') \<and>
     (50 \<le> p \<longrightarrow> stockLabel p = ''well-stocked'') \<and>
     (p < 50 \<longrightarrow> stockLabel p = ''getting busy'')"
    by (simp add: healthLabel_def stockLabel_def)
  have scenario: "availabilityPercentage s = Some 45"
    if "total_books (dashboardStats s) = 100" and "available_books (dashboardStats s) = 45"
    unfolding availabilityPercentage_def using that percentage_45_of_100 by simp
  have empty: "availabilityPercentage s = Some 0" if "total_books (dashboardStats s) = 0"
    using that by (simp add: availabilityPercentage_def)
  have good: "healthLabel 45 = ''Good''" and poor: "healthLabel 0 = ''Needs Attention''"
    by (simp_all add: healthLabel_def)
  from thresholds scenario empty good poor show ?thesis by simp
qed

theorem availability_labels_witness:
  "total_books (dashboardStats (with_books 100 45 120)) = 100 \<and>
   available_books (dashboardStats (with_books 100 45 120)) = 45 \<and>
   (40::int) \<le> 45 \<and> (45::int) < 70 \<and> (45::int) < 50 \<and>
   availabilityPercentage (with_books 100 45 120) = Some 45 \<and>
   healthLabel 45 = ''Good'' \<and> stockLabel 45 = ''getting busy'' \<and>
   (70::int) \<le> 70 \<and> healthLabel 70 = ''Excellent'' \<and> stockLabel 70 = ''well-stocked'' \<and>
   (39::int) < 40 \<and> healthLabel 39 = ''Needs Attention''"
  using availability_labels [of 45 "with_books 100 45 120"]
        availability_labels [of 70 "with_books 100 45 120"]
        availability_labels [of 39 "with_books 100 45 120"]
  by (simp add: with_books_def)

end
